theory Spec2Isabelle
  imports Main
begin

text \<open>
  The client of the social profile application: \<open>getCookie\<close> of \<open>utils.js\<close>, the
  component \<open>EnsAndAddress\<close>, the \<open>Profile\<close> page with its avatar selection, profile
  fetch and follow handler, and the submit handlers of the profile form and of its
  file upload. React components are modelled as functions of their props, state and
  hook results; what the network, the cookie store and the naming hooks deliver is
  an input.
\<close>

section \<open>JavaScript values\<close>

text \<open>
  The primitive JavaScript values the modelled functions read and compare. Numbers are
  the integers (only HTTP status codes and the literal 201 occur); objects, arrays and
  functions are not values of this type, because none of the modelled functions reads
  one. Equality of two values of this type is JavaScript's strict equality \<open>===\<close>.
\<close>

datatype jsval = Undefined | Null | Bool bool | Num int | Str string

text \<open>An object with string keys: \<open>k in obj\<close> and \<open>obj[k]\<close>.\<close>

type_synonym jsobj = "string \<rightharpoonup> jsval"

definition js_in :: "string \<Rightarrow> jsobj \<Rightarrow> bool" where
  "js_in k obj = (obj k \<noteq> None)"

definition js_get :: "jsobj \<Rightarrow> string \<Rightarrow> jsval" where
  "js_get obj k = (case obj k of None \<Rightarrow> Undefined | Some v \<Rightarrow> v)"

text \<open>
  ToBoolean, and the operators \<open>!\<close> and \<open>||\<close>. The value of \<open>!v\<close> is a boolean; used
  as the left operand of \<open>in\<close> it is converted to the property key \<open>"true"\<close> or
  \<open>"false"\<close>.
\<close>

fun truthy :: "jsval \<Rightarrow> bool" where
  "truthy Undefined = False"
| "truthy Null = False"
| "truthy (Bool b) = b"
| "truthy (Num n) = (n \<noteq> 0)"
| "truthy (Str s) = (s \<noteq> [])"

definition js_not :: "jsval \<Rightarrow> bool" where
  "js_not v = (\<not> truthy v)"

definition js_or :: "jsval \<Rightarrow> jsval \<Rightarrow> jsval" where
  "js_or a b = (if truthy a then a else b)"

definition bool_key :: "bool \<Rightarrow> string" where
  "bool_key b = (if b then ''true'' else ''false'')"

text \<open>
  What an \<open>async\<close> function gives its caller: a promise that fulfils, or one that rejects
  with the error thrown inside it or with the rejection of a promise it awaited.
\<close>

datatype js_error = TypeError | URIError | Rejection string

datatype outcome = Fulfilled | Rejected js_error

section \<open>Strings\<close>

text \<open>
  A string is a list of code units below 256. \<open>split\<close> cuts at every occurrence of the
  separator and never returns the empty list; \<open>trim\<close> strips white space and line
  terminators at both ends; \<open>substr\<close> is used with a start that is not negative.
\<close>

fun split :: "char \<Rightarrow> string \<Rightarrow> string list" where
  "split sep [] = [[]]"
| "split sep (c # cs) =
     (if c = sep then [] # split sep cs
      else (case split sep cs of [] \<Rightarrow> [[c]] | w # ws \<Rightarrow> (c # w) # ws))"

definition is_ws :: "char \<Rightarrow> bool" where
  "is_ws c = (c \<in> set [CHR 0x09, CHR 0x0A, CHR 0x0B, CHR 0x0C, CHR 0x0D, CHR 0x20, CHR 0xA0])"

definition trim :: "string \<Rightarrow> string" where
  "trim s = rev (dropWhile is_ws (rev (dropWhile is_ws s)))"

definition startsWith :: "string \<Rightarrow> string \<Rightarrow> bool" where
  "startsWith s p = (take (length p) s = p)"

definition substr :: "string \<Rightarrow> nat \<Rightarrow> nat \<Rightarrow> string" where
  "substr s start len = take len (drop start s)"

section \<open>utils.js: getCookie\<close>

text \<open>
  \<open>document.cookie\<close> is a string. \<open>decodeURIComponent\<close> is a built-in of the language
  and a parameter here: it returns the decoded string or throws. Its argument is
  \<open>xsrfCookies[0].split('=')[1]\<close>, which is \<open>undefined\<close> when the split has one part
  only; the built-in then converts it to the string \<open>"undefined"\<close>.
\<close>

definition xsrfCookies :: "string \<Rightarrow> string \<Rightarrow> string list" where
  "xsrfCookies cookie name =
     filter (\<lambda>c. startsWith c (name @ ''='')) (map trim (split CHR '';'' cookie))"

definition second_part :: "string list \<Rightarrow> string" where
  "second_part parts = (if 1 < length parts then parts ! 1 else ''undefined'')"

definition getCookie :: "(string \<Rightarrow> js_error + string) \<Rightarrow> string \<Rightarrow> string \<Rightarrow> js_error + jsval" where
  "getCookie decodeURIComponent cookie name =
     (if cookie = [] then Inr Null
      else if length (xsrfCookies cookie name) = 0 then Inr Null
      else (case decodeURIComponent (second_part (split CHR ''='' (xsrfCookies cookie name ! 0))) of
              Inl e \<Rightarrow> Inl e
            | Inr v \<Rightarrow> Inr (Str v)))"

text \<open>
  The claim's words: the segment of an entry between its first \<open>=\<close> and the next one
  (or the end of the entry).
\<close>

definition segment_after_first_eq :: "string \<Rightarrow> string" where
  "segment_after_first_eq entry =
     takeWhile (\<lambda>c. c \<noteq> CHR ''='') (drop 1 (dropWhile (\<lambda>c. c \<noteq> CHR ''='') entry))"

section \<open>components/EnsAndAddress.js\<close>

text \<open>
  The component is a function of its props and of what the hook \<open>useEnsName\<close> returned
  for this render. It returns an element, or throws when \<open>substr\<close> is called on a value
  that is not a string.
\<close>

record ens_name =
  data :: jsval
  isError :: bool
  isLoading :: bool

datatype ens_element =
    MissingAddress
  | FetchingEnsName
  | ErrorFetchingEnsName
  | NameWithAbbr jsval string
  | AbbrOnly string

definition getAbbrAddress :: "jsobj \<Rightarrow> jsval \<Rightarrow> js_error + string" where
  "getAbbrAddress props addr =
     (case addr of
        Str a \<Rightarrow>
          (case js_get props ''address'' of
             Str b \<Rightarrow> Inr (substr a 2 5 @ ''...'' @ substr b 37 5)
           | _ \<Rightarrow> Inl TypeError)
      | _ \<Rightarrow> Inl TypeError)"

text \<open>
  The guard \<open>! "address" in props\<close>: the unary \<open>!\<close> binds tighter than \<open>in\<close>, so the
  left operand of \<open>in\<close> is the boolean \<open>!"address"\<close>.
\<close>

definition missing_address_guard :: "jsobj \<Rightarrow> bool" where
  "missing_address_guard props = js_in (bool_key (js_not (Str ''address''))) props"

definition EnsAndAddress :: "jsobj \<Rightarrow> ens_name \<Rightarrow> js_error + ens_element" where
  "EnsAndAddress props ens =
     (if missing_address_guard props then Inr MissingAddress
      else if isLoading ens then Inr FetchingEnsName
      else if isError ens then Inr ErrorFetchingEnsName
      else if data ens \<noteq> Null then
        (case getAbbrAddress props (js_get props ''address'') of
           Inl e \<Rightarrow> Inl e
         | Inr abbr \<Rightarrow> Inr (NameWithAbbr (data ens) abbr))
      else
        (case getAbbrAddress props (js_get props ''address'') of
           Inl e \<Rightarrow> Inl e
         | Inr abbr \<Rightarrow> Inr (AbbrOnly abbr)))"

section \<open>The Profile page\<close>

text \<open>
  The state of the component: the route parameter \<open>address\<close>, the two \<open>useState\<close> cells
  \<open>profileData\<close> (initially the empty object) and \<open>pfpUrl\<close> (initially \<open>null\<close>), and
  \<open>ensAvatar["data"]\<close> as the hook \<open>useEnsAvatar\<close> returned it for the current render
  (it is \<open>undefined\<close> until the lookup has resolved, then a string or \<open>null\<close>).

  \<open>fetchProfile\<close> is called by the effect of the render in which \<open>routerLocation.key\<close>
  changed. It and the \<open>determineProfilePic\<close> it calls are the closures of that render,
  so when the response arrives they read the \<open>address\<close>, \<open>profileData\<close> and \<open>ensAvatar\<close>
  of that render. A request in flight therefore carries these three values; \<open>pending\<close>
  lists the requests in flight (it is the model's bookkeeping, not a React state).
\<close>

record request =
  req_address :: string
  req_profileData :: jsobj
  req_ensAvatar :: jsval

record profile_state =
  address :: string
  profileData :: jsobj
  pfpUrl :: jsval
  ensAvatar :: jsval
  pending :: "request list"

definition initial :: "string \<Rightarrow> jsval \<Rightarrow> profile_state" where
  "initial a e =
     \<lparr>address = a, profileData = Map.empty, pfpUrl = Null, ensAvatar = e, pending = []\<rparr>"

text \<open>\<open>determineProfilePic\<close>: the value it passes to \<open>setPfpUrl\<close>.\<close>

definition determineProfilePic :: "jsobj \<Rightarrow> jsval \<Rightarrow> jsval" where
  "determineProfilePic pd ens =
     (if js_in ''image'' pd \<and> js_get pd ''image'' \<noteq> Str [] then js_get pd ''image''
      else ens)"

text \<open>
  The effect with dependency \<open>[pfpUrl]\<close>: \<open>Some v\<close> when it calls \<open>setPfpUrl(v)\<close>, \<open>None\<close>
  when it returns without a call.
\<close>

definition pfpUrl_effect :: "jsval \<Rightarrow> jsval \<Rightarrow> jsval option" where
  "pfpUrl_effect p ens =
     (if p = ens then None
      else if ens \<noteq> Str [] then Some ens
      else None)"

text \<open>The profile picture in the returned element.\<close>

datatype avatar = Blockies string | Image jsval

definition avatar_view :: "profile_state \<Rightarrow> avatar" where
  "avatar_view s = (if pfpUrl s = Null then Blockies (address s) else Image (pfpUrl s))"

text \<open>
  After a render in which \<open>pfpUrl\<close> is new the effect runs; when it sets \<open>pfpUrl\<close> the
  component renders again and the effect runs again. \<open>settle\<close> lists the renders this
  causes.
\<close>

function settle :: "profile_state \<Rightarrow> profile_state list" where
  "settle s =
     (case pfpUrl_effect (pfpUrl s) (ensAvatar s) of
        None \<Rightarrow> []
      | Some v \<Rightarrow> s\<lparr>pfpUrl := v\<rparr> # settle (s\<lparr>pfpUrl := v\<rparr>))"
  by pat_completeness auto
termination
  by (relation "measure (\<lambda>s. if pfpUrl s = ensAvatar s then 0 else 1)")
     (auto simp: pfpUrl_effect_def split: if_splits)

declare settle.simps [simp del]

text \<open>
  \<open>fetchProfile\<close> up to its first \<open>await\<close>, and its continuation when the response has
  arrived with a status and, for status 200, a JSON body that parses to an object
  (when \<open>res.json()\<close> rejects no setter is called). With React 18 the two setters
  called after the \<open>await\<close> give one render.
\<close>

definition fetchProfile_issue :: "profile_state \<Rightarrow> profile_state" where
  "fetchProfile_issue s =
     s\<lparr>pending := pending s @
          [\<lparr>req_address = address s, req_profileData = profileData s,
            req_ensAvatar = ensAvatar s\<rparr>]\<rparr>"

definition fetchProfile_response :: "request \<Rightarrow> int \<Rightarrow> jsobj \<Rightarrow> profile_state \<Rightarrow> profile_state" where
  "fetchProfile_response r status body s =
     (if status = 200 then
        s\<lparr>profileData := body,
          pfpUrl := determineProfilePic (req_profileData r) (req_ensAvatar r)\<rparr>
      else s)"

text \<open>
  What happens to a mounted component: the route changes to another address (the hook
  then returns the data it has for that address), the hook's data changes, or the
  response to the \<open>n\<close>-th request in flight arrives. Each step gives the states the
  screen shows from then on, the last being the one it rests in.
\<close>

datatype event =
    Navigate string jsval
  | EnsAvatarData jsval
  | Response nat int jsobj

fun step :: "event \<Rightarrow> profile_state \<Rightarrow> profile_state list" where
  "step (Navigate a e) s = [fetchProfile_issue (s\<lparr>address := a, ensAvatar := e\<rparr>)]"
| "step (EnsAvatarData e) s = [s\<lparr>ensAvatar := e\<rparr>]"
| "step (Response n status body) s =
     (if n < length (pending s) then
        let s1 = s\<lparr>pending := take n (pending s) @ drop (Suc n) (pending s)\<rparr>;
            s2 = fetchProfile_response (pending s ! n) status body s1
        in s2 # (if pfpUrl s2 \<noteq> pfpUrl s then settle s2 else [])
      else [s])"

text \<open>Mounting renders the initial state, then both effects run.\<close>

definition mount :: "string \<Rightarrow> jsval \<Rightarrow> profile_state list" where
  "mount a e = (let s = fetchProfile_issue (initial a e) in s # settle s)"

fun run :: "event list \<Rightarrow> profile_state list \<Rightarrow> profile_state list" where
  "run [] h = h"
| "run (ev # evs) h = run evs (h @ step ev (last h))"

text \<open>
  \<open>handleFollow\<close>: the request it sends, if it gets that far, and how its promise ends.
  It calls no state setter, so the state it is given is the state it leaves.
\<close>

record follow_request =
  url :: string
  http_method :: string
  csrf_token :: jsval
  credentials :: string

definition handleFollow ::
  "string \<Rightarrow> (string \<Rightarrow> js_error + string) \<Rightarrow> string \<Rightarrow> (js_error + int) \<Rightarrow> profile_state
   \<Rightarrow> profile_state \<times> follow_request option \<times> outcome" where
  "handleFollow baseAPI decodeURIComponent cookie res s =
     (case getCookie decodeURIComponent cookie ''csrftoken'' of
        Inl e \<Rightarrow> (s, None, Rejected e)
      | Inr token \<Rightarrow>
          (let req = \<lparr>url = baseAPI @ ''/'' @ address s @ ''/follow/'', http_method = ''POST'',
                      csrf_token = token, credentials = ''include''\<rparr>
           in case res of
                Inl e \<Rightarrow> (s, Some req, Rejected e)
              | Inr status \<Rightarrow> (s, Some req, Fulfilled)))"

section \<open>pages/CreateProfile\<close>

text \<open>
  \<open>handleSubmit\<close> of the profile form: the form state after it, the messages it writes
  to the console itself, and how its promise ends. \<open>formRes\<close> is the rejection of
  \<open>fetch\<close> or the status of the response.
\<close>

definition handleSubmit ::
  "bool \<Rightarrow> (string \<Rightarrow> js_error + string) \<Rightarrow> string \<Rightarrow> jsobj \<Rightarrow> (js_error + int) \<Rightarrow> jsobj
   \<Rightarrow> jsobj \<times> string list \<times> outcome" where
  "handleSubmit isConnected decodeURIComponent cookie initialState formRes profile =
     (if \<not> isConnected then (profile, [], Fulfilled)
      else case getCookie decodeURIComponent cookie ''csrftoken'' of
             Inl e \<Rightarrow> (profile, [], Rejected e)
           | Inr token \<Rightarrow>
               (case formRes of
                  Inl e \<Rightarrow> (profile, [], Rejected e)
                | Inr status \<Rightarrow>
                    if truthy (js_or (Bool (Num status = Num 200)) (Num 201))
                    then (initialState, [''successfully posted data''], Fulfilled)
                    else (profile, [''error posting data''], Fulfilled)))"

text \<open>
  \<open>handleFileSubmit\<close> of the file upload: \<open>storeBlob\<close> is the rejection of
  \<open>client.storeBlob\<close> or the content identifier it resolved with; \<open>upload\<close> is the
  rejection of the \<open>fetch\<close> or of \<open>res.json()\<close>, or the value of \<open>data.ok\<close>.
\<close>

definition gateway :: string where
  "gateway = ''https://www.ipfs.com/ipfs/''"

definition handleFileSubmit ::
  "bool \<Rightarrow> (js_error + string) \<Rightarrow> (js_error + jsval) \<Rightarrow> jsobj
   \<Rightarrow> jsobj \<times> string list \<times> outcome" where
  "handleFileSubmit isConnected storeBlob upload profile =
     (if \<not> isConnected then (profile, [], Fulfilled)
      else case storeBlob of
             Inl e \<Rightarrow> (profile, [], Rejected e)
           | Inr cid \<Rightarrow>
               (case upload of
                  Inl e \<Rightarrow> (profile, [''fetching nft storage api''], Rejected e)
                | Inr ok \<Rightarrow>
                    if truthy ok
                    then (profile(''image'' \<mapsto> Str (gateway @ cid)),
                          [''fetching nft storage api'', ''uploaded to ipfs successfully''],
                          Fulfilled)
                    else if js_not ok
                    then (profile,
                          [''fetching nft storage api'',
                           ''There was an error uploading your image to ipfs''],
                          Fulfilled)
                    else (profile, [''fetching nft storage api''], Fulfilled)))"

section \<open>Properties of getCookie\<close>

lemma split_ne: "split sep s \<noteq> []"
  by (induction s) (auto split: list.splits)

lemma split_hd: "hd (split sep s) = takeWhile (\<lambda>c. c \<noteq> sep) s"
  by (induction s) (auto split: list.splits simp: split_ne)

lemma split_second:
  "sep \<in> set s \<Longrightarrow>
   1 < length (split sep s) \<and>
   split sep s ! 1 = takeWhile (\<lambda>c. c \<noteq> sep) (drop 1 (dropWhile (\<lambda>c. c \<noteq> sep) s))"
proof (induction s)
  case Nil
  then show ?case by simp
next
  case (Cons c cs)
  show ?case
  proof (cases "c = sep")
    case True
    then show ?thesis
      using split_hd[of sep cs] split_ne[of sep cs]
      by (cases "split sep cs") (auto simp: hd_conv_nth)
  next
    case False
    with Cons.prems have "sep \<in> set cs" by auto
    from Cons.IH[OF this] False show ?thesis
      by (cases "split sep cs") auto
  qed
qed

lemma startsWith_eq_in: "startsWith e (name @ ''='') \<Longrightarrow> CHR ''='' \<in> set e"
  unfolding startsWith_def
  by (metis in_set_conv_decomp in_set_takeD)

lemma second_part_segment:
  "startsWith e (name @ ''='') \<Longrightarrow> second_part (split CHR ''='' e) = segment_after_first_eq e"
  using split_second[OF startsWith_eq_in, of e name]
  by (simp add: second_part_def segment_after_first_eq_def)

lemma find_filter_conv:
  "List.find P xs = (case filter P xs of [] \<Rightarrow> None | x # _ \<Rightarrow> Some x)"
  by (induction xs) auto

lemma xsrfCookies_empty_cookie: "xsrfCookies [] name = []"
  by (simp add: xsrfCookies_def trim_def startsWith_def)

lemma xsrfCookies_first:
  "xsrfCookies cookie name = e # es \<Longrightarrow> startsWith e (name @ ''='')"
proof -
  assume "xsrfCookies cookie name = e # es"
  then have "e \<in> set (xsrfCookies cookie name)" by simp
  then show ?thesis by (simp add: xsrfCookies_def)
qed

lemma getCookie_find:
  "getCookie dec cookie name =
     (case List.find (\<lambda>e. startsWith e (name @ ''='')) (map trim (split CHR '';'' cookie)) of
        None \<Rightarrow> Inr Null
      | Some e \<Rightarrow> map_sum id Str (dec (segment_after_first_eq e)))"
proof (cases "xsrfCookies cookie name")
  case Nil
  then show ?thesis
    by (simp add: getCookie_def find_filter_conv xsrfCookies_def[symmetric])
next
  case (Cons e es)
  then have ne: "cookie \<noteq> []" using xsrfCookies_empty_cookie by auto
  from Cons have "second_part (split CHR ''='' e) = segment_after_first_eq e"
    by (rule second_part_segment[OF xsrfCookies_first])
  with Cons ne show ?thesis
    by (simp add: getCookie_def find_filter_conv xsrfCookies_def[symmetric] split: sum.splits)
qed

lemma segment_truncates:
  "CHR ''='' \<notin> set name \<Longrightarrow>
   segment_after_first_eq (name @ ''='' @ v) = takeWhile (\<lambda>c. c \<noteq> CHR ''='') v"
  by (simp add: segment_after_first_eq_def dropWhile_append3 dropWhile_append)

text \<open>
  Claim C9. \<open>getCookie\<close> returns \<open>null\<close> on the empty cookie string and when no trimmed
  entry of the cookie string starts with \<open>name=\<close>. Otherwise it returns
  \<open>decodeURIComponent\<close> of the segment of the first such entry between its first \<open>=\<close> and
  the next one (throwing when the built-in throws). For a name without \<open>=\<close> that segment
  is the cookie's value cut at its first \<open>=\<close>.
\<close>

theorem getCookie_first_segment:
  "getCookie dec [] name = Inr Null \<and>
   getCookie dec cookie name =
     (case List.find (\<lambda>e. startsWith e (name @ ''='')) (map trim (split CHR '';'' cookie)) of
        None \<Rightarrow> Inr Null
      | Some e \<Rightarrow> map_sum id Str (dec (segment_after_first_eq e))) \<and>
   (CHR ''='' \<notin> set name \<longrightarrow>
      segment_after_first_eq (name @ ''='' @ v) = takeWhile (\<lambda>c. c \<noteq> CHR ''='') v)"
  using getCookie_find[of dec cookie name] segment_truncates[of name v]
  by (simp add: getCookie_def)

theorem getCookie_first_segment_witness:
  "CHR ''='' \<notin> set ''csrftoken'' \<and>
   getCookie Inr ''a=1; csrftoken=ab=cd; csrftoken=zz'' ''csrftoken'' = Inr (Str ''ab'') \<and>
   segment_after_first_eq (''csrftoken'' @ ''='' @ ''ab=cd'') = ''ab''"
  using getCookie_first_segment
          [of Inr "''csrftoken''" "''a=1; csrftoken=ab=cd; csrftoken=zz''" "''ab=cd''"]
  by (simp add: trim_def is_ws_def startsWith_def segment_after_first_eq_def)

section \<open>Properties of EnsAndAddress\<close>

lemma guard_eq: "missing_address_guard props = js_in ''false'' props"
  by (simp add: missing_address_guard_def js_not_def bool_key_def)

lemma getAbbrAddress_Str:
  "js_get props ''address'' = Str a \<Longrightarrow>
   getAbbrAddress props (Str a) = Inr (substr a 2 5 @ ''...'' @ substr a 37 5)"
  by (simp add: getAbbrAddress_def)

text \<open>
  Claim C10. For props without a key \<open>"false"\<close> the guard \<open>! "address" in props\<close> is
  false, so the component never returns the "Missing address" element. When
  \<open>props.address\<close> is absent as well, the argument of every call of \<open>getAbbrAddress\<close> is
  \<open>undefined\<close> and the call throws a TypeError; the component reaches that call, and
  throws, whenever the lookup is neither loading nor in error.
\<close>

theorem guard_never_reports_missing_address:
  assumes "\<not> js_in ''false'' props"
  shows "\<not> missing_address_guard props \<and>
         EnsAndAddress props ens \<noteq> Inr MissingAddress \<and>
         (\<not> js_in ''address'' props \<longrightarrow>
            js_get props ''address'' = Undefined \<and>
            getAbbrAddress props (js_get props ''address'') = Inl TypeError \<and>
            (\<not> isLoading ens \<and> \<not> isError ens \<longrightarrow> EnsAndAddress props ens = Inl TypeError))"
  using assms
  by (auto simp: guard_eq EnsAndAddress_def getAbbrAddress_def js_in_def js_get_def
           split: sum.splits)

theorem guard_never_reports_missing_address_witness:
  "\<not> js_in ''false'' (Map.empty :: jsobj) \<and>
   \<not> js_in ''address'' (Map.empty :: jsobj) \<and>
   \<not> missing_address_guard Map.empty \<and>
   EnsAndAddress Map.empty \<lparr>data = Undefined, isError = False, isLoading = False\<rparr> =
     Inl TypeError"
  using guard_never_reports_missing_address
          [of Map.empty "\<lparr>data = Undefined, isError = False, isLoading = False\<rparr>"]
  by (simp add: js_in_def)

text \<open>
  Claim C7, as stated, fails for a lookup that has resolved with an error: the
  component then returns the element "Error fetching ENS name" and shows neither a
  name nor the abbreviated address.
\<close>

theorem errored_lookup_shows_no_label:
  "EnsAndAddress [''address'' \<mapsto> Str ''0x52908400098527886e0f7030069857d2e4169ee7'']
     \<lparr>data = Null, isError = True, isLoading = False\<rparr> = Inr ErrorFetchingEnsName \<and>
   EnsAndAddress [''address'' \<mapsto> Str ''0x52908400098527886e0f7030069857d2e4169ee7'']
     \<lparr>data = Null, isError = True, isLoading = False\<rparr> \<noteq>
     Inr (AbbrOnly (substr ''0x52908400098527886e0f7030069857d2e4169ee7'' 2 5 @ ''...'' @ substr ''0x52908400098527886e0f7030069857d2e4169ee7'' 37 5))"
  by (simp add: EnsAndAddress_def guard_eq js_in_def)

text \<open>
  Claim C7, amended. With a string address in the props (and no key \<open>"false"\<close>) and a
  lookup that is no longer loading: when the lookup ended without error, a name that
  was found is shown with the abbreviated address beside it, and without a name
  (\<open>data\<close> is \<open>null\<close>) the abbreviated address is shown alone; when the lookup ended in
  error, the element "Error fetching ENS name" is returned in place of the label. The
  abbreviation is a function of the address string: its characters 2 to 6, three dots,
  its characters 37 to 41.
\<close>

theorem label_precedence:
  assumes "js_get props ''address'' = Str a" and "\<not> js_in ''false'' props"
    and "\<not> isLoading ens"
  shows "(\<not> isError ens \<and> data ens = Str n \<longrightarrow>
            EnsAndAddress props ens =
              Inr (NameWithAbbr (Str n) (substr a 2 5 @ ''...'' @ substr a 37 5))) \<and>
         (\<not> isError ens \<and> data ens = Null \<longrightarrow>
            EnsAndAddress props ens = Inr (AbbrOnly (substr a 2 5 @ ''...'' @ substr a 37 5))) \<and>
         (isError ens \<longrightarrow> EnsAndAddress props ens = Inr ErrorFetchingEnsName)"
  using assms by (simp add: guard_eq EnsAndAddress_def getAbbrAddress_Str)

theorem label_precedence_witness:
  "js_get [''address'' \<mapsto> Str ''0x52908400098527886e0f7030069857d2e4169ee7''] ''address'' = Str ''0x52908400098527886e0f7030069857d2e4169ee7'' \<and>
   \<not> js_in ''false'' [''address'' \<mapsto> Str ''0x52908400098527886e0f7030069857d2e4169ee7''] \<and>
   EnsAndAddress [''address'' \<mapsto> Str ''0x52908400098527886e0f7030069857d2e4169ee7'']
     \<lparr>data = Str ''vitalik.eth'', isError = False, isLoading = False\<rparr> =
     Inr (NameWithAbbr (Str ''vitalik.eth'') ''52908...69ee7'') \<and>
   EnsAndAddress [''address'' \<mapsto> Str ''0x52908400098527886e0f7030069857d2e4169ee7'']
     \<lparr>data = Null, isError = False, isLoading = False\<rparr> =
     Inr (AbbrOnly ''52908...69ee7'') \<and>
   EnsAndAddress [''address'' \<mapsto> Str ''0x52908400098527886e0f7030069857d2e4169ee7'']
     \<lparr>data = Str ''vitalik.eth'', isError = True, isLoading = False\<rparr> =
     Inr ErrorFetchingEnsName"
  using label_precedence
          [of "[''address'' \<mapsto> Str ''0x52908400098527886e0f7030069857d2e4169ee7'']" "''0x52908400098527886e0f7030069857d2e4169ee7''"
              "\<lparr>data = Str ''vitalik.eth'', isError = False, isLoading = False\<rparr>"
              "''vitalik.eth''"]
        label_precedence
          [of "[''address'' \<mapsto> Str ''0x52908400098527886e0f7030069857d2e4169ee7'']" "''0x52908400098527886e0f7030069857d2e4169ee7''"
              "\<lparr>data = Null, isError = False, isLoading = False\<rparr>"
              "''vitalik.eth''"]
        label_precedence
          [of "[''address'' \<mapsto> Str ''0x52908400098527886e0f7030069857d2e4169ee7'']" "''0x52908400098527886e0f7030069857d2e4169ee7''"
              "\<lparr>data = Str ''vitalik.eth'', isError = True, isLoading = False\<rparr>"
              "''vitalik.eth''"]
  by (simp add: js_get_def js_in_def substr_def)

text \<open>
  Claim C6, as stated, fails when the provider errors: the component then returns the
  element "Error fetching ENS name", not the abbreviated address.
\<close>

theorem provider_error_shows_error_marker:
  "EnsAndAddress [''address'' \<mapsto> Str ''0x52908400098527886e0f7030069857d2e4169ee7'']
     \<lparr>data = Undefined, isError = True, isLoading = False\<rparr> = Inr ErrorFetchingEnsName \<and>
   EnsAndAddress [''address'' \<mapsto> Str ''0x52908400098527886e0f7030069857d2e4169ee7'']
     \<lparr>data = Undefined, isError = True, isLoading = False\<rparr> \<noteq>
     Inr (AbbrOnly ''52908...69ee7'')"
  by (simp add: EnsAndAddress_def guard_eq js_in_def)

text \<open>
  Claim C6, amended. When the provider reports the address as unregistered (no error,
  \<open>data\<close> is \<open>null\<close>) the label is the abbreviated address. When the provider errors the
  component returns the element "Error fetching ENS name" in place of the label.
\<close>

theorem unregistered_degrades_error_does_not:
  assumes "js_get props ''address'' = Str a" and "\<not> js_in ''false'' props"
    and "\<not> isLoading ens"
  shows "(isError ens \<longrightarrow> EnsAndAddress props ens = Inr ErrorFetchingEnsName) \<and>
         (\<not> isError ens \<and> data ens = Null \<longrightarrow>
            EnsAndAddress props ens = Inr (AbbrOnly (substr a 2 5 @ ''...'' @ substr a 37 5)))"
  using assms by (simp add: guard_eq EnsAndAddress_def getAbbrAddress_Str)

theorem unregistered_degrades_error_does_not_witness:
  "js_get [''address'' \<mapsto> Str ''0x52908400098527886e0f7030069857d2e4169ee7''] ''address'' = Str ''0x52908400098527886e0f7030069857d2e4169ee7'' \<and>
   EnsAndAddress [''address'' \<mapsto> Str ''0x52908400098527886e0f7030069857d2e4169ee7'']
     \<lparr>data = Null, isError = True, isLoading = False\<rparr> = Inr ErrorFetchingEnsName \<and>
   EnsAndAddress [''address'' \<mapsto> Str ''0x52908400098527886e0f7030069857d2e4169ee7'']
     \<lparr>data = Null, isError = False, isLoading = False\<rparr> = Inr (AbbrOnly ''52908...69ee7'')"
  using unregistered_degrades_error_does_not
          [of "[''address'' \<mapsto> Str ''0x52908400098527886e0f7030069857d2e4169ee7'']" "''0x52908400098527886e0f7030069857d2e4169ee7''"
              "\<lparr>data = Null, isError = True, isLoading = False\<rparr>"]
        unregistered_degrades_error_does_not
          [of "[''address'' \<mapsto> Str ''0x52908400098527886e0f7030069857d2e4169ee7'']" "''0x52908400098527886e0f7030069857d2e4169ee7''"
              "\<lparr>data = Null, isError = False, isLoading = False\<rparr>"]
  by (simp add: js_get_def js_in_def substr_def)

section \<open>Properties of the Profile page\<close>

text \<open>
  The effect sets \<open>pfpUrl\<close> at most once in a row: after it has set it to the hook's data
  its next run finds the two equal and returns.
\<close>

lemma settle_eq:
  "settle s =
     (if pfpUrl s = ensAvatar s \<or> ensAvatar s = Str [] then []
      else [s\<lparr>pfpUrl := ensAvatar s\<rparr>])"
  by (simp add: settle.simps[of s] settle.simps[of "s\<lparr>pfpUrl := ensAvatar s\<rparr>"]
        pfpUrl_effect_def)

lemma mount_eq:
  "mount a e =
     (if e = Null \<or> e = Str [] then [fetchProfile_issue (initial a e)]
      else [fetchProfile_issue (initial a e),
            (fetchProfile_issue (initial a e))\<lparr>pfpUrl := e\<rparr>])"
  by (auto simp: mount_def Let_def settle_eq fetchProfile_issue_def initial_def)

lemmas profile_defs =
  mount_eq settle_eq fetchProfile_issue_def fetchProfile_response_def initial_def
  determineProfilePic_def avatar_view_def js_in_def js_get_def Let_def

lemma getCookie_csrftoken: "getCookie Inr ''csrftoken=t'' ''csrftoken'' = Inr (Str ''t'')"
  by (simp add: getCookie_def xsrfCookies_def trim_def is_ws_def startsWith_def second_part_def)

text \<open>
  Claim C1, as stated, fails. The page is mounted for an address whose naming lookup
  has not resolved, the profile response arrives, then the lookup resolves with the
  avatar \<open>Y\<close>. The first render shows the generated identicon while the lookup is still
  unresolved, and the renders after it show an image, never a pending marker.
\<close>

theorem generated_avatar_before_naming_resolves:
  "map (\<lambda>s. (ensAvatar s, avatar_view s))
     (run [Response 0 200 [''bio'' \<mapsto> Str ''hi''], EnsAvatarData (Str ''Y'')]
        (mount ''0xA'' Undefined)) =
   [(Undefined, Blockies ''0xA''), (Undefined, Image Undefined),
    (Undefined, Image Undefined), (Str ''Y'', Image Undefined)]"
  by (simp add: profile_defs)

text \<open>
  Claim C1, amended. The profile picture has no pending marker: every render shows
  either the generated identicon, exactly when \<open>pfpUrl\<close> is \<open>null\<close>, or an image with
  source \<open>pfpUrl\<close>. The first render after mounting shows the generated identicon keyed
  by the address, whatever the sources have delivered by then.
\<close>

theorem avatar_has_no_pending_marker:
  "(avatar_view s = Blockies (address s) \<or> avatar_view s = Image (pfpUrl s)) \<and>
   (avatar_view s = Blockies (address s)) = (pfpUrl s = Null) \<and>
   (avatar_view s = Image (pfpUrl s)) = (pfpUrl s \<noteq> Null) \<and>
   avatar_view (hd (mount a e)) = Blockies a"
  by (simp add: profile_defs)

text \<open>
  Claim C2 fails on the code for a profile with the custom avatar \<open>X\<close>.
  \<open>determineProfilePic\<close> prefers \<open>X\<close> to the naming avatar \<open>Y\<close>, but the effect that runs
  once \<open>pfpUrl\<close> is \<open>X\<close> sets it to \<open>Y\<close>. On the page: mounted with the naming avatar \<open>Y\<close>
  resolved, the response carrying \<open>X\<close> leaves \<open>Y\<close> on display, because the
  \<open>determineProfilePic\<close> that runs is the closure of the first render and reads the
  empty \<open>profileData\<close>; after a second navigation to the same address \<open>X\<close> is shown and
  then overwritten by \<open>Y\<close>; and with no naming avatar (\<open>null\<close>) the generated identicon
  is shown instead of \<open>X\<close>.
\<close>

theorem custom_avatar_not_displayed:
  "determineProfilePic [''image'' \<mapsto> Str ''X''] (Str ''Y'') = Str ''X'' \<and>
   pfpUrl_effect (Str ''X'') (Str ''Y'') = Some (Str ''Y'') \<and>
   map avatar_view
     (run [Response 0 200 [''image'' \<mapsto> Str ''X'']] (mount ''0xA'' (Str ''Y''))) =
     [Blockies ''0xA'', Image (Str ''Y''), Image (Str ''Y'')] \<and>
   map avatar_view
     (run [Response 0 200 [''image'' \<mapsto> Str ''X''], Navigate ''0xA'' (Str ''Y''),
           Response 0 200 [''image'' \<mapsto> Str ''X'']] (mount ''0xA'' (Str ''Y''))) =
     [Blockies ''0xA'', Image (Str ''Y''), Image (Str ''Y''), Image (Str ''Y''),
      Image (Str ''X''), Image (Str ''Y'')] \<and>
   map avatar_view
     (run [Response 0 200 [''image'' \<mapsto> Str ''X'']] (mount ''0xA'' Null)) =
     [Blockies ''0xA'', Blockies ''0xA'']"
  by (simp add: profile_defs pfpUrl_effect_def)

text \<open>
  Claim C3, as stated, fails. The page is mounted for address A, the route changes to
  address B, the response for B arrives and then the late response for A: the page
  shows the profile data of A under the address B.
\<close>

theorem late_response_applied_under_new_address:
  "map (\<lambda>s. (address s, profileData s ''bio'', map req_address (pending s)))
     (run [Navigate ''0xB'' Undefined, Response 1 200 [''bio'' \<mapsto> Str ''of B''],
           Response 0 200 [''bio'' \<mapsto> Str ''of A'']] (mount ''0xA'' Undefined)) =
   [(''0xA'', None, [''0xA'']), (''0xA'', None, [''0xA'']),
    (''0xB'', None, [''0xA'', ''0xB'']),
    (''0xB'', Some (Str ''of B''), [''0xA'']),
    (''0xB'', Some (Str ''of A''), [])]"
  by (simp add: profile_defs)

text \<open>
  Claim C3, amended. A response is not compared with the address on display: a
  response with status 200 to any request in flight makes its body the \<open>profileData\<close>
  of the page, whose address stays what it is; a response with another status only
  ends the request and changes no state of the page.
\<close>

theorem response_applied_whatever_the_address:
  assumes "n < length (pending s)"
  shows "address (last (step (Response n 200 body) s)) = address s \<and>
         profileData (last (step (Response n 200 body) s)) = body \<and>
         (status \<noteq> 200 \<longrightarrow>
            step (Response n status body) s =
              [s\<lparr>pending := take n (pending s) @ drop (Suc n) (pending s)\<rparr>])"
  using assms by (simp add: Let_def settle_eq fetchProfile_response_def)

theorem response_applied_whatever_the_address_witness:
  "req_address (pending 
      \<lparr>address = ''0xB'', profileData = Map.empty, pfpUrl = Undefined,
        ensAvatar = Undefined,
        pending = [\<lparr>req_address = ''0xA'', req_profileData = Map.empty,
                    req_ensAvatar = Undefined\<rparr>]\<rparr> ! 0) = ''0xA'' \<and>
   address (last (step (Response 0 200 [''bio'' \<mapsto> Str ''of A'']) 
      \<lparr>address = ''0xB'', profileData = Map.empty, pfpUrl = Undefined,
        ensAvatar = Undefined,
        pending = [\<lparr>req_address = ''0xA'', req_profileData = Map.empty,
                    req_ensAvatar = Undefined\<rparr>]\<rparr>)) = ''0xB'' \<and>
   profileData (last (step (Response 0 200 [''bio'' \<mapsto> Str ''of A'']) 
      \<lparr>address = ''0xB'', profileData = Map.empty, pfpUrl = Undefined,
        ensAvatar = Undefined,
        pending = [\<lparr>req_address = ''0xA'', req_profileData = Map.empty,
                    req_ensAvatar = Undefined\<rparr>]\<rparr>)) =
     [''bio'' \<mapsto> Str ''of A''] \<and>
   step (Response 0 404 [''bio'' \<mapsto> Str ''of A'']) 
      \<lparr>address = ''0xB'', profileData = Map.empty, pfpUrl = Undefined,
        ensAvatar = Undefined,
        pending = [\<lparr>req_address = ''0xA'', req_profileData = Map.empty,
                    req_ensAvatar = Undefined\<rparr>]\<rparr> =
     [\<lparr>address = ''0xB'', profileData = Map.empty, pfpUrl = Undefined,
       ensAvatar = Undefined, pending = []\<rparr>]"
  using response_applied_whatever_the_address
    [of 0 "
      \<lparr>address = ''0xB'', profileData = Map.empty, pfpUrl = Undefined,
        ensAvatar = Undefined,
        pending = [\<lparr>req_address = ''0xA'', req_profileData = Map.empty,
                    req_ensAvatar = Undefined\<rparr>]\<rparr>" "[''bio'' \<mapsto> Str ''of A'']" 404]
  by simp

text \<open>
  Claim C4, as stated, fails. A follow request answered with status 500 leaves the
  state of the page as it was before the click, so no optimistic mutation was made, and
  the handler ends exactly as it does for status 200, so the failure is not surfaced.
\<close>

theorem follow_failure_same_as_success:
  "handleFollow ''/api'' Inr ''csrftoken=t'' (Inr 500) (initial ''0xA'' Null) =
     (initial ''0xA'' Null,
      Some \<lparr>url = ''/api/0xA/follow/'', http_method = ''POST'', csrf_token = Str ''t'',
            credentials = ''include''\<rparr>,
      Fulfilled) \<and>
   handleFollow ''/api'' Inr ''csrftoken=t'' (Inr 500) (initial ''0xA'' Null) =
   handleFollow ''/api'' Inr ''csrftoken=t'' (Inr 200) (initial ''0xA'' Null)"
  by (simp add: handleFollow_def getCookie_csrftoken initial_def)

text \<open>
  Claim C4, amended. \<open>handleFollow\<close> reads the cookie \<open>csrftoken\<close> and, unless that
  throws, sends one request: a POST to the follow address of the profile on display,
  with the cookie's value as the anti-forgery token and the credentials included. It
  changes no state of the page, neither before the response nor after it, whatever the
  response is. A response with any status ends the handler as status 200 does, with a
  fulfilled promise; the promise rejects only when reading the cookie throws or
  \<open>fetch\<close> itself rejects.
\<close>

theorem follow_mutates_nothing:
  "fst (handleFollow baseAPI dec cookie res s) = s \<and>
   fst (snd (handleFollow baseAPI dec cookie res s)) =
     (case getCookie dec cookie ''csrftoken'' of
        Inl e \<Rightarrow> None
      | Inr token \<Rightarrow>
          Some \<lparr>url = baseAPI @ ''/'' @ address s @ ''/follow/'', http_method = ''POST'',
                csrf_token = token, credentials = ''include''\<rparr>) \<and>
   snd (snd (handleFollow baseAPI dec cookie res s)) =
     (case getCookie dec cookie ''csrftoken'' of
        Inl e \<Rightarrow> Rejected e
      | Inr token \<Rightarrow> (case res of Inl e \<Rightarrow> Rejected e | Inr status \<Rightarrow> Fulfilled)) \<and>
   handleFollow baseAPI dec cookie (Inr status) s = handleFollow baseAPI dec cookie (Inr 200) s"
  by (auto simp: handleFollow_def Let_def split: sum.splits)

theorem follow_mutates_nothing_witness:
  "fst (handleFollow ''/api'' Inr ''csrftoken=t'' (Inr 403) (initial ''0xA'' Null)) =
     initial ''0xA'' Null \<and>
   fst (snd (handleFollow ''/api'' Inr ''csrftoken=t'' (Inr 403) (initial ''0xA'' Null))) =
     Some \<lparr>url = ''/api/0xA/follow/'', http_method = ''POST'', csrf_token = Str ''t'',
           credentials = ''include''\<rparr> \<and>
   snd (snd (handleFollow ''/api'' Inr ''csrftoken=t'' (Inr 403) (initial ''0xA'' Null))) =
     Fulfilled \<and>
   snd (snd (handleFollow ''/api'' Inr ''csrftoken=t'' (Inl (Rejection ''network''))
               (initial ''0xA'' Null))) = Rejected (Rejection ''network'')"
proof -
  note at_403 = follow_mutates_nothing
    [of "''/api''" Inr "''csrftoken=t''" "Inr 403" "initial ''0xA'' Null" 403]
  note at_rejection = follow_mutates_nothing
    [of "''/api''" Inr "''csrftoken=t''" "Inl (Rejection ''network'')" "initial ''0xA'' Null" 403]
  show ?thesis
    using at_403[THEN conjunct1] at_403[THEN conjunct2, THEN conjunct1]
      at_403[THEN conjunct2, THEN conjunct2, THEN conjunct1]
      at_rejection[THEN conjunct2, THEN conjunct2, THEN conjunct1]
    by (simp add: getCookie_csrftoken initial_def)
qed

section \<open>Properties of the profile form\<close>

text \<open>
  Claim C5 fails on the code. The condition \<open>formRes.status === 200 || 201\<close> is truthy
  for every status, so a response with status 500 takes the success branch: the form
  state is reset to \<open>initialState\<close> and "successfully posted data" is logged.
\<close>

theorem failed_submit_resets_form:
  "handleSubmit True Inr ''csrftoken=t'' [''bio'' \<mapsto> Str []] (Inr 500)
     [''bio'' \<mapsto> Str ''hello''] =
     ([''bio'' \<mapsto> Str []], [''successfully posted data''], Fulfilled) \<and>
   fst (handleSubmit True Inr ''csrftoken=t'' [''bio'' \<mapsto> Str []] (Inr 500)
     [''bio'' \<mapsto> Str ''hello'']) ''bio'' \<noteq> [''bio'' \<mapsto> Str ''hello''] ''bio''"
  by (simp add: handleSubmit_def getCookie_csrftoken js_or_def)

text \<open>
  Claim C8. With a wallet connected, when \<open>storeBlob\<close> has resolved with a content
  identifier and the upload response has a truthy \<open>ok\<close>, the \<open>image\<close> field of the
  profile becomes the gateway prefix followed by the identifier and the rest of the
  profile is kept. When \<open>storeBlob\<close> rejects, the upload request rejects or its \<open>ok\<close> is
  falsy, the profile is left as it was.
\<close>

theorem upload_sets_image_uri:
  "(isConnected \<and> storeBlob = Inr cid \<and> upload = Inr ok \<and> truthy ok \<longrightarrow>
      fst (handleFileSubmit isConnected storeBlob upload profile) =
        profile(''image'' \<mapsto> Str (''https://www.ipfs.com/ipfs/'' @ cid))) \<and>
   ((\<forall>c. storeBlob \<noteq> Inr c) \<or> (\<forall>v. upload = Inr v \<longrightarrow> \<not> truthy v) \<longrightarrow>
      fst (handleFileSubmit isConnected storeBlob upload profile) = profile)"
  by (auto simp: handleFileSubmit_def gateway_def split: sum.splits)

theorem upload_sets_image_uri_witness:
  "truthy (Bool True) \<and>
   fst (handleFileSubmit True (Inr ''bafy'') (Inr (Bool True)) [''bio'' \<mapsto> Str ''hello'']) =
     [''bio'' \<mapsto> Str ''hello'', ''image'' \<mapsto> Str ''https://www.ipfs.com/ipfs/bafy''] \<and>
   fst (handleFileSubmit True (Inr ''bafy'') (Inr (Bool False)) [''bio'' \<mapsto> Str ''hello'']) =
     [''bio'' \<mapsto> Str ''hello''] \<and>
   fst (handleFileSubmit True (Inl (Rejection ''network'')) (Inr (Bool True))
          [''bio'' \<mapsto> Str ''hello'']) = [''bio'' \<mapsto> Str ''hello'']"
  using upload_sets_image_uri
          [of True "Inr ''bafy''" "''bafy''" "Inr (Bool True)" "Bool True"
              "[''bio'' \<mapsto> Str ''hello'']"]
        upload_sets_image_uri
          [of True "Inr ''bafy''" "''bafy''" "Inr (Bool False)" "Bool True"
              "[''bio'' \<mapsto> Str ''hello'']"]
        upload_sets_image_uri
          [of True "Inl (Rejection ''network'')" "''bafy''" "Inr (Bool True)" "Bool True"
              "[''bio'' \<mapsto> Str ''hello'']"]
  by simp

end
